theory Spec2Isabelle
  imports Complex_Main "HOL-Library.Word" "HOL-Library.Product_Lexorder" "HOL-Library.Multiset"
begin

unbundle bit_operations_syntax

section \<open>Python strings\<close>

text \<open>
  A Python \<open>str\<close> that the validators and the recommendation engine read is modelled as
  a \<^typ>\<open>string\<close> whose characters are the code points 0 to 255 of the text; the
  classifications below are those of Python 3 on that range, and \<open>len\<close> is
  \<^const>\<open>length\<close>. The content of a stored template, which the store encodes, keeps all
  its code points: see the section on the digest.
\<close>

definition code_point :: "char \<Rightarrow> nat" where
  "code_point c = of_char c"

text \<open>\<open>str.isspace()\<close> on one character: what \<open>str.strip()\<close> removes.\<close>

definition isspace_char :: "char \<Rightarrow> bool" where
  "isspace_char c =
     (let n = code_point c
      in (9 \<le> n \<and> n \<le> 13) \<or> (28 \<le> n \<and> n \<le> 32) \<or> n = 133 \<or> n = 160)"

text \<open>\<open>str.isalnum()\<close> on one character.\<close>

definition isalnum_char :: "char \<Rightarrow> bool" where
  "isalnum_char c =
     (let n = code_point c
      in (48 \<le> n \<and> n \<le> 57) \<or> (65 \<le> n \<and> n \<le> 90) \<or> (97 \<le> n \<and> n \<le> 122)
         \<or> n = 170 \<or> n = 178 \<or> n = 179 \<or> n = 181 \<or> n = 185 \<or> n = 186
         \<or> (188 \<le> n \<and> n \<le> 190) \<or> (192 \<le> n \<and> n \<le> 214)
         \<or> (216 \<le> n \<and> n \<le> 246) \<or> (248 \<le> n \<and> n \<le> 255))"

text \<open>\<open>s.isalnum()\<close>: false on the empty string.\<close>

definition isalnum :: "string \<Rightarrow> bool" where
  "isalnum s = (s \<noteq> [] \<and> list_all isalnum_char s)"

text \<open>\<open>s.replace(c, '')\<close> for a one-character \<open>c\<close>.\<close>

definition remove_char :: "char \<Rightarrow> string \<Rightarrow> string" where
  "remove_char c s = filter (\<lambda>x. x \<noteq> c) s"

definition strip :: "string \<Rightarrow> string" where
  "strip s = rev (dropWhile isspace_char (rev (dropWhile isspace_char s)))"

definition startswith :: "string \<Rightarrow> string \<Rightarrow> bool" where
  "startswith s p = (take (length p) s = p)"

definition endswith :: "string \<Rightarrow> string \<Rightarrow> bool" where
  "endswith s p = (length p \<le> length s \<and> drop (length s - length p) s = p)"

text \<open>\<open>sub in s\<close>.\<close>

fun contains :: "string \<Rightarrow> string \<Rightarrow> bool" where
  "contains [] sub = (sub = [])"
| "contains (c # cs) sub = (startswith (c # cs) sub \<or> contains cs sub)"

text \<open>\<open>s.split('\n')\<close>: never empty, one more item than there are newlines.\<close>

fun split_lines :: "string \<Rightarrow> string list" where
  "split_lines [] = [[]]"
| "split_lines (c # cs) =
     (if c = CHR 0x0A then [] # split_lines cs
      else (case split_lines cs of [] \<Rightarrow> [[c]] | l # ls \<Rightarrow> (c # l) # ls))"

text \<open>\<open>str(n)\<close> for a non-negative integer.\<close>

definition digit_char :: "nat \<Rightarrow> char" where
  "digit_char d = char_of (48 + d)"

fun str_nat :: "nat \<Rightarrow> string" where
  "str_nat n = (if n < 10 then [digit_char n] else str_nat (n div 10) @ [digit_char (n mod 10)])"

declare str_nat.simps [simp del]

section \<open>Template validator\<close>

text \<open>
  \<open>TemplateValidator.validate_template_content\<close>. The messages are kept structured
  (which rule, which line number, which stripped line) and rendered by \<open>content_message\<close>
  to the text the source appends.
\<close>

datatype content_error =
    EmptyContent
  | AbsolutePath nat string
  | DoubleStar nat string

definition quote :: string where
  "quote = [CHR 0x27]"

fun content_message :: "content_error \<Rightarrow> string" where
  "content_message EmptyContent = ''Template content cannot be empty''"
| "content_message (AbsolutePath i line) =
     ''Line '' @ str_nat i @ '': Invalid pattern '' @ quote @ line @ quote
       @ '' - absolute paths should end with '' @ quote @ ''/'' @ quote"
| "content_message (DoubleStar i line) =
     ''Line '' @ str_nat i @ '': Invalid pattern '' @ quote @ line @ quote
       @ '' - '' @ quote @ ''**'' @ quote @ '' should be followed by '' @ quote @ ''/'' @ quote"

text \<open>The body of the loop for line number \<open>i\<close> and raw line \<open>raw\<close>.\<close>

definition line_errors :: "nat \<Rightarrow> string \<Rightarrow> content_error list" where
  "line_errors i raw =
     (let line = strip raw
      in if line \<noteq> [] \<and> \<not> startswith line ''#''
         then (if startswith line ''/'' \<and> \<not> endswith line ''/''
               then [AbsolutePath i line] else [])
            @ (if contains line ''**'' \<and> \<not> endswith line ''/''
               then [DoubleStar i line] else [])
         else [])"

text \<open>\<open>for i, line in enumerate(lines, i0)\<close>.\<close>

fun lines_errors :: "nat \<Rightarrow> string list \<Rightarrow> content_error list" where
  "lines_errors i [] = []"
| "lines_errors i (l # ls) = line_errors i l @ lines_errors (Suc i) ls"

definition content_errors :: "string \<Rightarrow> content_error list" where
  "content_errors content =
     (if strip content = [] then [EmptyContent] else [])
       @ lines_errors 1 (split_lines content)"

definition validate_template_content :: "string \<Rightarrow> bool \<times> string list" where
  "validate_template_content content =
     (let errors = map content_message (content_errors content)
      in (length errors = 0, errors))"

text \<open>\<open>TemplateValidator.validate_template_name\<close>.\<close>

datatype name_error = NameEmpty | NameTooLong | NameNotAlnum

fun name_message :: "name_error \<Rightarrow> string" where
  "name_message NameEmpty = ''Template name cannot be empty''"
| "name_message NameTooLong = ''Template name too long (max 50 characters)''"
| "name_message NameNotAlnum =
     ''Template name must be alphanumeric with optional hyphens/underscores''"

definition name_errors :: "string \<Rightarrow> name_error list" where
  "name_errors name =
     (if name = [] then [NameEmpty] else [])
       @ (if length name > 50 then [NameTooLong] else [])
       @ (if \<not> isalnum (remove_char CHR ''_'' (remove_char CHR ''-'' name))
          then [NameNotAlnum] else [])"

definition validate_template_name :: "string \<Rightarrow> bool \<times> string list" where
  "validate_template_name name =
     (let errors = map name_message (name_errors name)
      in (length errors = 0, errors))"

section \<open>Content digest\<close>

text \<open>
  The exceptions the manager lets out: its three \<open>ValueError\<close>s, told apart by their
  message (\<open>must be alphanumeric ...\<close>, \<open>... already exists\<close>, \<open>... not found\<close>), and the
  \<open>UnicodeEncodeError\<close> of \<open>content.encode()\<close>.
\<close>

datatype error = InvalidName | DuplicateName | NotFound | UnicodeEncodeError

text \<open>
  The content of a template is the one string the manager encodes, and \<open>str.encode()\<close>
  raises on a string that holds a surrogate. So a content is kept as the list of its code
  points, numbers below \<open>0x110000\<close>, of which \<open>0xD800\<close> to \<open>0xDFFF\<close> are the surrogates;
  a larger number is no code point, and \<open>encode\<close> refuses it as well.
\<close>

type_synonym code_points = "nat list"

definition code_points_of :: "string \<Rightarrow> code_points" where
  "code_points_of s = map code_point s"

text \<open>The UTF-8 bytes of one code point: one to four bytes, none for a surrogate.\<close>

definition encode_point :: "nat \<Rightarrow> 8 word list option" where
  "encode_point n =
     (if n < 0x80 then Some [word_of_nat n]
      else if n < 0x800 then Some [word_of_nat (0xC0 + n div 64), word_of_nat (0x80 + n mod 64)]
      else if 0xD800 \<le> n \<and> n \<le> 0xDFFF then None
      else if n < 0x10000
      then Some [word_of_nat (0xE0 + n div 4096), word_of_nat (0x80 + n div 64 mod 64),
                 word_of_nat (0x80 + n mod 64)]
      else if n < 0x110000
      then Some [word_of_nat (0xF0 + n div 262144), word_of_nat (0x80 + n div 4096 mod 64),
                 word_of_nat (0x80 + n div 64 mod 64), word_of_nat (0x80 + n mod 64)]
      else None)"

text \<open>\<open>content.encode()\<close>: the bytes, or the exception.\<close>

fun encode :: "code_points \<Rightarrow> error + 8 word list" where
  "encode [] = Inr []"
| "encode (n # ns) =
     (case encode_point n of
        None \<Rightarrow> Inl UnicodeEncodeError
      | Some bs \<Rightarrow> (case encode ns of Inl e \<Rightarrow> Inl e | Inr rest \<Rightarrow> Inr (bs @ rest)))"

text \<open>
  \<open>hashlib.sha256(bytes).hexdigest()\<close>, the SHA-256 of FIPS 180-4 on 32-bit words,
  printed as 64 lower-case hexadecimal digits.
\<close>

text \<open>
  The round constants are the first 32 bits of the fractional parts of the cube roots of
  the first 64 primes, the initial hash value those of the square roots of the first 8.
  \<open>iroot k n\<close> is the integer \<open>k\<close>-th root of \<open>n\<close>, built bit by bit from bit 40 down.
\<close>

definition first_primes :: "nat list" where
  "first_primes = filter (\<lambda>n. list_all (\<lambda>d. n mod d \<noteq> 0) [2..<n]) [2..<312]"

fun iroot_from :: "nat \<Rightarrow> int \<Rightarrow> nat \<Rightarrow> int \<Rightarrow> int" where
  "iroot_from k n 0 r = (if (r + 1) ^ k \<le> n then r + 1 else r)"
| "iroot_from k n (Suc b) r =
     iroot_from k n b (if (r + 2 ^ Suc b) ^ k \<le> n then r + 2 ^ Suc b else r)"

definition iroot :: "nat \<Rightarrow> int \<Rightarrow> int" where
  "iroot k n = iroot_from k n 40 0"

definition frac_root_bits :: "nat \<Rightarrow> nat \<Rightarrow> 32 word" where
  "frac_root_bits k p = word_of_int (iroot k (int p * 2 ^ (32 * k)))"

definition sha_k :: "32 word list" where
  "sha_k = map (frac_root_bits 3) first_primes"

type_synonym sha_state =
  "32 word \<times> 32 word \<times> 32 word \<times> 32 word \<times> 32 word \<times> 32 word \<times> 32 word \<times> 32 word"

definition sha_h0 :: sha_state where
  "sha_h0 =
     (let h = map (frac_root_bits 2) (take 8 first_primes)
      in (h ! 0, h ! 1, h ! 2, h ! 3, h ! 4, h ! 5, h ! 6, h ! 7))"

definition rotr :: "nat \<Rightarrow> 32 word \<Rightarrow> 32 word" where
  "rotr n x = drop_bit n x OR push_bit (32 - n) x"

definition small_sigma0 :: "32 word \<Rightarrow> 32 word" where
  "small_sigma0 x = rotr 7 x XOR rotr 18 x XOR drop_bit 3 x"

definition small_sigma1 :: "32 word \<Rightarrow> 32 word" where
  "small_sigma1 x = rotr 17 x XOR rotr 19 x XOR drop_bit 10 x"

definition big_sigma0 :: "32 word \<Rightarrow> 32 word" where
  "big_sigma0 x = rotr 2 x XOR rotr 13 x XOR rotr 22 x"

definition big_sigma1 :: "32 word \<Rightarrow> 32 word" where
  "big_sigma1 x = rotr 6 x XOR rotr 11 x XOR rotr 25 x"

definition ch :: "32 word \<Rightarrow> 32 word \<Rightarrow> 32 word \<Rightarrow> 32 word" where
  "ch x y z = (x AND y) XOR (NOT x AND z)"

definition maj :: "32 word \<Rightarrow> 32 word \<Rightarrow> 32 word \<Rightarrow> 32 word" where
  "maj x y z = (x AND y) XOR (x AND z) XOR (y AND z)"

text \<open>The eight bytes of the message length in bits, most significant first.\<close>

definition be64 :: "64 word \<Rightarrow> 8 word list" where
  "be64 n = map (\<lambda>i. ucast (drop_bit (8 * (7 - i)) n)) [0..<8]"

definition sha_pad :: "8 word list \<Rightarrow> 8 word list" where
  "sha_pad bs =
     bs @ [0x80] @ replicate ((119 - length bs mod 64) mod 64) 0 @ be64 (8 * word_of_nat (length bs))"

fun chunks :: "nat \<Rightarrow> 'a list \<Rightarrow> 'a list list" where
  "chunks n xs = (if n = 0 \<or> xs = [] then [] else take n xs # chunks n (drop n xs))"

declare chunks.simps [simp del]

definition be32 :: "8 word list \<Rightarrow> 32 word" where
  "be32 bs = foldl (\<lambda>acc b. push_bit 8 acc OR ucast b) 0 bs"

text \<open>The message schedule: sixteen words of the block, extended to sixty-four.\<close>

fun extend :: "nat \<Rightarrow> 32 word list \<Rightarrow> 32 word list" where
  "extend 0 w = w"
| "extend (Suc k) w =
     (let n = length w
      in extend k (w @ [small_sigma1 (w ! (n - 2)) + w ! (n - 7)
                        + small_sigma0 (w ! (n - 15)) + w ! (n - 16)]))"

definition schedule :: "8 word list \<Rightarrow> 32 word list" where
  "schedule block = extend 48 (map be32 (chunks 4 block))"

fun sha_round :: "32 word \<times> 32 word \<Rightarrow> sha_state \<Rightarrow> sha_state" where
  "sha_round (k, w) (a, b, c, d, e, f, g, h) =
     (let t1 = h + big_sigma1 e + ch e f g + k + w;
          t2 = big_sigma0 a + maj a b c
      in (t1 + t2, a, b, c, d + t1, e, f, g))"

fun sha_add :: "sha_state \<Rightarrow> sha_state \<Rightarrow> sha_state" where
  "sha_add (a, b, c, d, e, f, g, h) (a', b', c', d', e', f', g', h') =
     (a + a', b + b', c + c', d + d', e + e', f + f', g + g', h + h')"

definition compress :: "8 word list \<Rightarrow> sha_state \<Rightarrow> sha_state" where
  "compress block st = sha_add st (fold sha_round (zip sha_k (schedule block)) st)"

definition sha256 :: "8 word list \<Rightarrow> sha_state" where
  "sha256 bs = fold compress (chunks 64 (sha_pad bs)) sha_h0"

definition hex_digit :: "nat \<Rightarrow> char" where
  "hex_digit d = (if d < 10 then char_of (48 + d) else char_of (87 + d))"

definition hex32 :: "32 word \<Rightarrow> string" where
  "hex32 w = map (\<lambda>i. hex_digit (unat (drop_bit (4 * (7 - i)) w AND 15))) [0..<8]"

fun hexdigest :: "sha_state \<Rightarrow> string" where
  "hexdigest (a, b, c, d, e, f, g, h) =
     hex32 a @ hex32 b @ hex32 c @ hex32 d @ hex32 e @ hex32 f @ hex32 g @ hex32 h"

text \<open>\<open>hashlib.sha256(bytes).hexdigest()\<close>.\<close>

definition sha256_hex :: "8 word list \<Rightarrow> string" where
  "sha256_hex bs = hexdigest (sha256 bs)"

text \<open>\<open>TemplateManager._calculate_checksum\<close>.\<close>

definition calculate_checksum :: "code_points \<Rightarrow> error + string" where
  "calculate_checksum content =
     (case encode content of Inl e \<Rightarrow> Inl e | Inr bs \<Rightarrow> Inr (sha256_hex bs))"

section \<open>Template store\<close>

text \<open>A \<open>datetime\<close> is a point on the clock, counted in microseconds.\<close>

type_synonym datetime = int

record Template =
  name :: string
  description :: string
  content :: code_points
  author :: string
  version :: string
  tags :: "string list"
  technologies :: "string list"
  created_at :: datetime
  updated_at :: datetime
  downloads :: int
  rating :: real
  is_official :: bool
  is_custom :: bool
  file_size :: int
  checksum :: string

text \<open>
  What \<open>metadata.json\<close> holds: nothing (no file), something \<open>json.load\<close> or
  \<open>Template(**template_data)\<close> raises on, or the index written by
  \<open>_save_templates_database\<close>, every field of every template under its key.
\<close>

datatype metadata_content =
    NoMetadata
  | BadMetadata
  | Index "string \<rightharpoonup> Template"

text \<open>
  The state of a \<open>TemplateManager\<close>: the dictionary \<open>templates_db\<close> in memory, and on disk
  the files \<open>custom/<name>.gitignore\<close> (keyed here by \<open>name\<close>) and \<open>metadata.json\<close>.
  Files are written in UTF-8; a write of text that can be encoded is taken to succeed.
\<close>

record store =
  templates_db :: "string \<rightharpoonup> Template"
  custom_files :: "string \<rightharpoonup> code_points"
  metadata_file :: metadata_content

text \<open>\<open>_load_templates_database\<close>: an exception is printed and the result is \<open>{}\<close>.\<close>

fun load_templates_database :: "metadata_content \<Rightarrow> (string \<rightharpoonup> Template)" where
  "load_templates_database NoMetadata = Map.empty"
| "load_templates_database BadMetadata = Map.empty"
| "load_templates_database (Index data) = data"

text \<open>\<open>TemplateManager.__init__\<close> over the files found on disk.\<close>

definition init_manager :: "(string \<rightharpoonup> code_points) \<Rightarrow> metadata_content \<Rightarrow> store" where
  "init_manager files meta =
     \<lparr>templates_db = load_templates_database meta, custom_files = files, metadata_file = meta\<rparr>"

definition save_templates_database :: "store \<Rightarrow> store" where
  "save_templates_database s = s\<lparr>metadata_file := Index (templates_db s)\<rparr>"

text \<open>
  \<open>create_template\<close>; \<open>now\<close> is what \<open>datetime.now()\<close> returns. The name is checked, then
  the dictionary; building the \<open>Template\<close> encodes the content, which can raise; nothing
  is written before that.
\<close>

definition create_template ::
  "store \<Rightarrow> string \<Rightarrow> string \<Rightarrow> code_points \<Rightarrow> string \<Rightarrow> string list \<Rightarrow> string list \<Rightarrow> bool
     \<Rightarrow> datetime \<Rightarrow> store \<times> (error + Template)" where
  "create_template s nm descr cont auth tgs techs official now =
     (if nm = [] \<or> \<not> isalnum (remove_char CHR ''_'' (remove_char CHR ''-'' nm))
      then (s, Inl InvalidName)
      else if templates_db s nm \<noteq> None
      then (s, Inl DuplicateName)
      else
        (case encode cont of
           Inl e \<Rightarrow> (s, Inl e)
         | Inr bytes \<Rightarrow>
             (case calculate_checksum cont of
                Inl e \<Rightarrow> (s, Inl e)
              | Inr digest \<Rightarrow>
                  let template =
                        \<lparr>name = nm, description = descr, content = cont, author = auth,
                         version = ''1.0.0'', tags = tgs, technologies = techs,
                         created_at = now, updated_at = now, downloads = 0, rating = 0,
                         is_official = official, is_custom = True,
                         file_size = int (length bytes), checksum = digest\<rparr>;
                      s1 = s\<lparr>custom_files := (custom_files s)(nm \<mapsto> cont)\<rparr>;
                      s2 = s1\<lparr>templates_db := (templates_db s1)(nm \<mapsto> template)\<rparr>
                  in (save_templates_database s2, Inr template))))"

text \<open>
  \<open>update_template\<close>; an argument left at \<open>None\<close> is \<^const>\<open>None\<close>. The object in the
  dictionary is changed in place, statement by statement, so at every moment the entry
  under \<open>nm\<close> is the template as changed so far.

  \<open>finish_update\<close> is the part after the content block: tags, technologies, version,
  \<open>updated_at\<close>, and the saving of the index. It gets the template as changed so far and the
  content files as they are by then.
\<close>

definition finish_update ::
  "store \<Rightarrow> string \<Rightarrow> Template \<Rightarrow> (string \<rightharpoonup> code_points) \<Rightarrow> string list option
     \<Rightarrow> string list option \<Rightarrow> string option \<Rightarrow> datetime \<Rightarrow> store \<times> (error + Template)" where
  "finish_update s nm t2 written tgs techs vers now =
     (let t3 = (case tgs of None \<Rightarrow> t2 | Some x \<Rightarrow> t2\<lparr>tags := x\<rparr>);
          t4 = (case techs of None \<Rightarrow> t3 | Some x \<Rightarrow> t3\<lparr>technologies := x\<rparr>);
          t5 = (case vers of None \<Rightarrow> t4 | Some v \<Rightarrow> t4\<lparr>version := v\<rparr>);
          t6 = t5\<lparr>updated_at := now\<rparr>;
          s1 = s\<lparr>custom_files := written, templates_db := (templates_db s)(nm \<mapsto> t6)\<rparr>
      in (save_templates_database s1, Inr t6))"

text \<open>
  The description and then the content are assigned before the content is encoded for
  \<open>file_size\<close>, and \<open>file_size\<close> before the checksum is computed. When the encoding
  raises, the call ends there: the entry keeps the assignments made so far, its checksum
  and \<open>updated_at\<close> are the old ones, and neither the content file nor the index is
  written.
\<close>

definition update_template ::
  "store \<Rightarrow> string \<Rightarrow> string option \<Rightarrow> code_points option \<Rightarrow> string list option
     \<Rightarrow> string list option \<Rightarrow> string option \<Rightarrow> datetime \<Rightarrow> store \<times> (error + Template)" where
  "update_template s nm descr cont tgs techs vers now =
     (case templates_db s nm of
        None \<Rightarrow> (s, Inl NotFound)
      | Some template \<Rightarrow>
          let t1 = (case descr of None \<Rightarrow> template
                    | Some d \<Rightarrow> template\<lparr>description := d\<rparr>)
          in (case cont of
                None \<Rightarrow> finish_update s nm t1 (custom_files s) tgs techs vers now
              | Some c \<Rightarrow>
                  (case encode c of
                     Inl e \<Rightarrow>
                       (s\<lparr>templates_db := (templates_db s)(nm \<mapsto> t1\<lparr>content := c\<rparr>)\<rparr>,
                        Inl e)
                   | Inr bytes \<Rightarrow>
                       (case calculate_checksum c of
                          Inl e \<Rightarrow>
                            (s\<lparr>templates_db :=
                                 (templates_db s)
                                   (nm \<mapsto> t1\<lparr>content := c,
                                              file_size := int (length bytes)\<rparr>)\<rparr>,
                             Inl e)
                        | Inr digest \<Rightarrow>
                            finish_update s nm
                              (t1\<lparr>content := c, file_size := int (length bytes),
                                  checksum := digest\<rparr>)
                              ((custom_files s)(nm \<mapsto> c)) tgs techs vers now))))"

text \<open>
  \<open>delete_template\<close>; \<open>confirm\<close> is the answer \<open>Confirm.ask\<close> gives when it is asked.
\<close>

definition delete_template ::
  "store \<Rightarrow> string \<Rightarrow> bool \<Rightarrow> bool \<Rightarrow> store \<times> (error + bool)" where
  "delete_template s nm force confirm =
     (case templates_db s nm of
        None \<Rightarrow> (s, Inl NotFound)
      | Some template \<Rightarrow>
          if \<not> force \<and> \<not> confirm then (s, Inr False)
          else
            let s1 = save_templates_database (s\<lparr>templates_db := (templates_db s)(nm := None)\<rparr>);
                s2 = s1\<lparr>custom_files := (custom_files s1)(nm := None)\<rparr>
            in (s2, Inr True))"

definition get_template :: "store \<Rightarrow> string \<Rightarrow> Template option" where
  "get_template s nm = templates_db s nm"

text \<open>
  The document \<open>export_template\<close> writes and \<open>import_template\<close> reads. \<open>json.dump\<close>
  followed by \<open>json.load\<close>, and \<open>isoformat\<close> followed by \<open>fromisoformat\<close>, give back the
  value written, so a file is modelled by the value it holds. \<open>OtherFile\<close> is any file
  \<open>import_template\<close> raises on: no JSON, no \<open>"template"\<close> key, or keys that are not the
  fields of \<open>Template\<close>.
\<close>

record export_data =
  template :: Template
  exported_at :: datetime
  exported_by :: string

datatype file_content = ExportFile export_data | OtherFile

type_synonym files = "string \<rightharpoonup> file_content"

definition export_template ::
  "store \<Rightarrow> string \<Rightarrow> string \<Rightarrow> datetime \<Rightarrow> files \<Rightarrow> files \<times> bool" where
  "export_template s nm output_path now fs =
     (case get_template s nm of
        None \<Rightarrow> (fs, False)
      | Some t \<Rightarrow>
          (fs(output_path \<mapsto>
                ExportFile \<lparr>template = t, exported_at = now, exported_by = ''gign''\<rparr>),
           True))"

text \<open>
  \<open>import_template\<close>. Every exception is caught and gives \<open>False\<close>: a missing or
  malformed file, and the \<open>write_text\<close> of a content that cannot be encoded. That one
  comes before the dictionary is touched, and after the content file has been opened for
  writing, which leaves it empty.
\<close>

definition import_template :: "store \<Rightarrow> string \<Rightarrow> files \<Rightarrow> bool \<Rightarrow> store \<times> bool" where
  "import_template s import_path fs confirm =
     (case fs import_path of
        None \<Rightarrow> (s, False)
      | Some OtherFile \<Rightarrow> (s, False)
      | Some (ExportFile import_data) \<Rightarrow>
          let t = template import_data
          in if templates_db s (name t) \<noteq> None \<and> \<not> confirm then (s, False)
             else
               (case encode (content t) of
                  Inl e \<Rightarrow> (s\<lparr>custom_files := (custom_files s)(name t \<mapsto> [])\<rparr>, False)
                | Inr bytes \<Rightarrow>
                    let s1 = s\<lparr>custom_files := (custom_files s)(name t \<mapsto> content t)\<rparr>;
                        s2 = s1\<lparr>templates_db := (templates_db s1)(name t \<mapsto> t)\<rparr>
                    in (save_templates_database s2, True)))"

text \<open>A sequence of store operations, each with its arguments and what its environment answers.\<close>

datatype store_op =
    Create string string code_points string "string list" "string list" bool datetime
  | Update string "string option" "code_points option" "string list option"
      "string list option" "string option" datetime
  | Delete string bool bool
  | Import string files bool

fun apply_op :: "store \<Rightarrow> store_op \<Rightarrow> store" where
  "apply_op s (Create nm descr cont auth tgs techs official now) =
     fst (create_template s nm descr cont auth tgs techs official now)"
| "apply_op s (Update nm descr cont tgs techs vers now) =
     fst (update_template s nm descr cont tgs techs vers now)"
| "apply_op s (Delete nm force confirm) = fst (delete_template s nm force confirm)"
| "apply_op s (Import import_path fs confirm) = fst (import_template s import_path fs confirm)"

definition run_ops :: "store \<Rightarrow> store_op list \<Rightarrow> store" where
  "run_ops s ops = foldl apply_op s ops"

text \<open>
  The integrity of a template: its content can be encoded, and its checksum and size are
  the digest and the number of the bytes.
\<close>

definition consistent :: "Template \<Rightarrow> bool" where
  "consistent t =
     (case encode (content t) of
        Inl e \<Rightarrow> False
      | Inr bytes \<Rightarrow>
          calculate_checksum (content t) = Inr (checksum t)
          \<and> int (length bytes) = file_size t)"

definition store_consistent :: "store \<Rightarrow> bool" where
  "store_consistent s = (\<forall>nm t. templates_db s nm = Some t \<longrightarrow> consistent t)"

section \<open>Recommendation engine\<close>

text \<open>
  \<open>priority\<close> and \<open>category\<close> are strings in the source, \<open>confidence\<close> a float that only
  ever holds one of the decimal constants written in the analyzers.
\<close>

record Recommendation =
  title :: string
  rec_description :: string
  priority :: string
  category :: string
  action :: string
  confidence :: real
  reasoning :: string

text \<open>
  What the engine reads of the file system. \<open>project_path\<close> is a directory, and a project
  is the list of its entries in the order the directory lists them: a regular file with
  its name and its size in bytes, a directory with its name and its own entries, or
  anything else (\<open>is_file()\<close> and \<open>is_dir()\<close> both false), with its name. There are no
  symbolic links to directories.
\<close>

datatype entry =
    File string nat
  | Dir string "entry list"
  | Other string

type_synonym project = "entry list"

fun entry_name :: "entry \<Rightarrow> string" where
  "entry_name (File nm sz) = nm"
| "entry_name (Dir nm kids) = nm"
| "entry_name (Other nm) = nm"

fun is_dir :: "entry \<Rightarrow> bool" where
  "is_dir (Dir nm kids) = True"
| "is_dir _ = False"

text \<open>
  A path below \<open>project_path\<close> is the list of its components. \<open>str(file_path)\<close> is only
  ever stored and counted, so the path stands for it.
\<close>

type_synonym path = "string list"

text \<open>
  \<open>project_path.rglob("*")\<close>: the entries of the directory, then the same for each of
  its sub-directories in turn. Names that start with a dot are not skipped.
\<close>

fun rglob :: "path \<Rightarrow> entry list \<Rightarrow> (path \<times> entry) list" where
  "rglob parent kids =
     map (\<lambda>k. (parent @ [entry_name k], k)) kids
     @ concat (map (\<lambda>k. case k of Dir nm sub \<Rightarrow> rglob (parent @ [nm]) sub | _ \<Rightarrow> []) kids)"

text \<open>\<open>str.lower()\<close> on the code points 0 to 255.\<close>

definition lower_char :: "char \<Rightarrow> char" where
  "lower_char c =
     (let n = code_point c
      in if (65 \<le> n \<and> n \<le> 90) \<or> (192 \<le> n \<and> n \<le> 214) \<or> (216 \<le> n \<and> n \<le> 222)
         then char_of (n + 32) else c)"

definition lower :: "string \<Rightarrow> string" where
  "lower s = map lower_char s"

text \<open>\<open>s.rfind(c)\<close>: the last index of \<open>c\<close>, or \<open>-1\<close>.\<close>

definition rfind :: "string \<Rightarrow> char \<Rightarrow> int" where
  "rfind s c =
     (if c \<in> set s then int (length s) - 1 - int (length (takeWhile (\<lambda>x. x \<noteq> c) (rev s)))
      else - 1)"

text \<open>\<open>PurePath.suffix\<close> of a path whose last component is \<open>nm\<close>.\<close>

definition suffix :: "string \<Rightarrow> string" where
  "suffix nm =
     (let i = rfind nm CHR ''.''
      in if 0 < i \<and> i < int (length nm) - 1 then drop (nat i) nm else [])"

text \<open>
  \<open>_is_sensitive_file\<close>. The patterns are the raw strings of the source, each backslash
  a character of the pattern, and the test is \<open>pattern in file_name\<close>.
\<close>

definition backslash :: char where
  "backslash = CHR 0x5C"

definition sensitive_patterns :: "string list" where
  "sensitive_patterns =
     [backslash # ''.env'', backslash # ''.key'', backslash # ''.pem'', backslash # ''.crt'',
      backslash # ''.p12'', backslash # ''.pfx'', ''config'' @ backslash # ''.json'',
      ''secrets'' @ backslash # ''.'', ''password'', ''credential'']"

definition is_sensitive_file :: "string \<Rightarrow> bool" where
  "is_sensitive_file nm =
     (let file_name = lower nm
      in list_ex (\<lambda>pattern. contains file_name pattern) sensitive_patterns)"

text \<open>\<open>_is_cache_directory\<close>.\<close>

definition cache_patterns :: "string list" where
  "cache_patterns =
     [''cache'', ''tmp'', ''temp'', ''node_modules'', ''vendor'', ''target'',
      ''__pycache__'', ''.pytest_cache'', ''.mypy_cache'', ''.gradle'']"

definition is_cache_directory :: "string \<Rightarrow> bool" where
  "is_cache_directory nm =
     (let dir_name = lower nm
      in list_ex (\<lambda>pattern. contains dir_name pattern) cache_patterns)"

text \<open>
  The dictionary \<open>_analyze_project_structure\<close> returns. \<open>file_types\<close> is a dictionary
  itself, kept as the list of its items in insertion order.
\<close>

record analysis =
  file_types :: "(string \<times> nat) list"
  directories :: "path list"
  sensitive_files :: "path list"
  large_files :: "path list"
  cache_dirs :: "path list"

text \<open>\<open>d[k] = d.get(k, 0) + 1\<close>.\<close>

definition count_up :: "string \<Rightarrow> (string \<times> nat) list \<Rightarrow> (string \<times> nat) list" where
  "count_up k d =
     (case map_of d k of
        None \<Rightarrow> d @ [(k, 1)]
      | Some n \<Rightarrow> map (\<lambda>(k', v). if k' = k then (k', n + 1) else (k', v)) d)"

text \<open>The body of the loop of \<open>_analyze_project_structure\<close> for one path.\<close>

fun analyze_entry :: "analysis \<Rightarrow> path \<times> entry \<Rightarrow> analysis" where
  "analyze_entry a (file_path, File nm sz) =
     (let ext = lower (suffix nm);
          a1 = a\<lparr>file_types := count_up ext (file_types a)\<rparr>;
          a2 = (if is_sensitive_file nm
                then a1\<lparr>sensitive_files := sensitive_files a1 @ [file_path]\<rparr> else a1)
      in if sz > 10 * 1024 * 1024
         then a2\<lparr>large_files := large_files a2 @ [file_path]\<rparr> else a2)"
| "analyze_entry a (file_path, Dir nm kids) =
     (let a1 = (if is_cache_directory nm
                then a\<lparr>cache_dirs := cache_dirs a @ [file_path]\<rparr> else a)
      in a1\<lparr>directories := directories a1 @ [file_path]\<rparr>)"
| "analyze_entry a (file_path, Other nm) = a"

definition analyze_project_structure :: "project \<Rightarrow> analysis" where
  "analyze_project_structure project_path =
     foldl analyze_entry
       \<lparr>file_types = [], directories = [], sensitive_files = [], large_files = [],
        cache_dirs = []\<rparr>
       (rglob [] project_path)"

definition community_patterns :: "(string \<times> string list) list" where
  "community_patterns =
     [(''python'',
        [''*.pyc'', ''__pycache__/'', ''.pytest_cache/'', ''.coverage'',
         ''htmlcov/'', ''.tox/'', ''.venv/'', ''venv/'', ''.mypy_cache/'']),
      (''node'',
        [''node_modules/'', ''npm-debug.log*'', ''yarn-debug.log*'', ''yarn-error.log*'',
         ''.npm'', ''.eslintcache'', ''.next/'', ''out/'', ''.nuxt/'']),
      (''java'',
        [''target/'', ''*.class'', ''*.jar'', ''.gradle/'', ''build/'',
         ''.idea/'', ''.eclipse/'', ''*.iml''])]"

text \<open>
  \<open>str.title()\<close> on unaccented text, which is all it is applied to: the keys of
  \<open>community_patterns\<close>. A letter after a letter is lowered, any other letter is raised.
\<close>

definition is_upper :: "char \<Rightarrow> bool" where
  "is_upper c = (65 \<le> code_point c \<and> code_point c \<le> 90)"

definition is_lower :: "char \<Rightarrow> bool" where
  "is_lower c = (97 \<le> code_point c \<and> code_point c \<le> 122)"

definition to_upper :: "char \<Rightarrow> char" where
  "to_upper c = (if is_lower c then char_of (code_point c - 32) else c)"

definition to_lower :: "char \<Rightarrow> char" where
  "to_lower c = (if is_upper c then char_of (code_point c + 32) else c)"

fun title_from :: "bool \<Rightarrow> string \<Rightarrow> string" where
  "title_from prev [] = []"
| "title_from prev (c # cs) =
     (if is_upper c \<or> is_lower c
      then (if prev then to_lower c else to_upper c) # title_from True cs
      else c # title_from False cs)"

definition title_str :: "string \<Rightarrow> string" where
  "title_str s = title_from False s"

definition generate_security_recommendations :: "analysis \<Rightarrow> Recommendation list" where
  "generate_security_recommendations a =
     (if sensitive_files a \<noteq> []
      then [\<lparr>title = ''Sensitive Files Detected'',
             rec_description = ''Found '' @ str_nat (length (sensitive_files a))
                                 @ '' potentially sensitive files'',
             priority = ''critical'',
             category = ''security'',
             action = ''Review and add appropriate patterns to .gitignore'',
             confidence = 0.95,
             reasoning = ''Sensitive files like .env, .key, .pem files should never be committed''\<rparr>]
      else [])
     @ (if filter (\<lambda>f. contains f ''config'') (map fst (file_types a)) \<noteq> []
        then [\<lparr>title = ''Configuration Files'',
               rec_description = ''Configuration files detected that may contain sensitive data'',
               priority = ''high'',
               category = ''security'',
               action = ''Review config files and add sensitive ones to .gitignore'',
               confidence = 0.8,
               reasoning = ''Configuration files often contain API keys, passwords, or other secrets''\<rparr>]
        else [])"

definition generate_performance_recommendations :: "analysis \<Rightarrow> Recommendation list" where
  "generate_performance_recommendations a =
     (if large_files a \<noteq> []
      then [\<lparr>title = ''Large Files Detected'',
             rec_description = ''Found '' @ str_nat (length (large_files a))
                                 @ '' files larger than 10MB'',
             priority = ''high'',
             category = ''performance'',
             action = ''Add large files to .gitignore or use Git LFS'',
             confidence = 0.9,
             reasoning = ''Large files slow down git operations and increase repository size''\<rparr>]
      else [])
     @ (if cache_dirs a \<noteq> []
        then [\<lparr>title = ''Cache Directories'',
               rec_description = ''Found '' @ str_nat (length (cache_dirs a))
                                   @ '' cache directories'',
               priority = ''medium'',
               category = ''performance'',
               action = ''Add cache directories to .gitignore'',
               confidence = 0.85,
               reasoning = ''Cache directories contain temporary files that should not be committed''\<rparr>]
        else [])"

text \<open>
  \<open>rglob("*.log")\<close> gives every path, of any kind, whose name ends with \<open>.log\<close>;
  \<open>iterdir()\<close> gives the entries of \<open>project_path\<close> itself.
\<close>

definition generate_best_practice_recommendations ::
  "project \<Rightarrow> string list \<Rightarrow> string option \<Rightarrow> Recommendation list" where
  "generate_best_practice_recommendations project_path techs existing_gitignore =
     (let log_files = filter (\<lambda>(file_path, k). endswith (entry_name k) ''.log'')
                        (rglob [] project_path);
          build_dirs = filter (\<lambda>d. is_dir d \<and> entry_name d \<in> set [''build'', ''dist'', ''out''])
                         project_path
      in (if log_files \<noteq> []
          then [\<lparr>title = ''Log Files'',
                 rec_description = ''Found '' @ str_nat (length log_files) @ '' log files'',
                 priority = ''medium'',
                 category = ''best_practice'',
                 action = ''Add *.log to .gitignore'',
                 confidence = 0.9,
                 reasoning = ''Log files contain runtime information and should not be committed''\<rparr>]
          else [])
         @ (if build_dirs \<noteq> []
            then [\<lparr>title = ''Build Output Directories'',
                   rec_description = ''Found '' @ str_nat (length build_dirs)
                                       @ '' build output directories'',
                   priority = ''high'',
                   category = ''best_practice'',
                   action = ''Add build output directories to .gitignore'',
                   confidence = 0.95,
                   reasoning = ''Build outputs are generated files that should not be committed''\<rparr>]
            else []))"

text \<open>The body of the loop over \<open>technologies\<close>.\<close>

definition technology_recommendation :: "string option \<Rightarrow> string \<Rightarrow> Recommendation list" where
  "technology_recommendation existing_gitignore tech =
     (case map_of community_patterns tech of
        None \<Rightarrow> []
      | Some patterns \<Rightarrow>
          let missing_patterns =
                (case existing_gitignore of
                   None \<Rightarrow> patterns
                 | Some text \<Rightarrow>
                     if text \<noteq> [] then filter (\<lambda>pattern. \<not> contains text pattern) patterns
                     else patterns)
          in if missing_patterns \<noteq> []
             then [\<lparr>title = title_str tech @ '' Best Practices'',
                    rec_description = ''Missing '' @ str_nat (length missing_patterns)
                                        @ '' recommended patterns for '' @ tech,
                    priority = ''high'',
                    category = ''best_practice'',
                    action = ''Add '' @ tech @ ''-specific patterns to .gitignore'',
                    confidence = 0.9,
                    reasoning = ''Community best practices for '' @ tech @ '' projects''\<rparr>]
             else [])"

definition generate_technology_recommendations ::
  "string list \<Rightarrow> string option \<Rightarrow> Recommendation list" where
  "generate_technology_recommendations techs existing_gitignore =
     concat (map (technology_recommendation existing_gitignore) techs)"

text \<open>\<open>scores.get(priority, 1)\<close>.\<close>

definition priority_score :: "string \<Rightarrow> nat" where
  "priority_score p =
     (if p = ''low'' then 1 else if p = ''medium'' then 2 else if p = ''high'' then 3
      else if p = ''critical'' then 4 else 1)"

definition sort_key_of :: "Recommendation \<Rightarrow> nat \<times> real" where
  "sort_key_of x = (priority_score (priority x), confidence x)"

text \<open>
  \<open>list.sort(key=..., reverse=True)\<close>: the list is reversed, sorted upwards keeping the
  order of equal keys, and reversed again, so equal keys keep their first order.
\<close>

definition sort_reverse :: "('a \<Rightarrow> 'k::linorder) \<Rightarrow> 'a list \<Rightarrow> 'a list" where
  "sort_reverse f xs = rev (sort_key f (rev xs))"

text \<open>What is in \<open>recommendations\<close> before the sort.\<close>

definition collect_recommendations ::
  "project \<Rightarrow> string list \<Rightarrow> string option \<Rightarrow> Recommendation list" where
  "collect_recommendations project_path detected_technologies existing_gitignore =
     (let project_analysis = analyze_project_structure project_path
      in generate_security_recommendations project_analysis
         @ generate_performance_recommendations project_analysis
         @ generate_best_practice_recommendations project_path detected_technologies
             existing_gitignore
         @ generate_technology_recommendations detected_technologies existing_gitignore)"

definition analyze_project_and_recommend ::
  "project \<Rightarrow> string list \<Rightarrow> string option \<Rightarrow> Recommendation list" where
  "analyze_project_and_recommend project_path detected_technologies existing_gitignore =
     sort_reverse sort_key_of
       (collect_recommendations project_path detected_technologies existing_gitignore)"

section \<open>The specification's wording\<close>

text \<open>
  The name rule as the specification words it: non-empty, at most 50 characters, every
  character a letter, a digit, \<open>-\<close> or \<open>_\<close>.
\<close>

definition allowed_name_char :: "char \<Rightarrow> bool" where
  "allowed_name_char c = (isalnum_char c \<or> c = CHR ''-'' \<or> c = CHR ''_'')"

definition spec_name_valid :: "string \<Rightarrow> bool" where
  "spec_name_valid nm = (nm \<noteq> [] \<and> length nm \<le> 50 \<and> list_all allowed_name_char nm)"

text \<open>
  The content rule as the specification words it, read on the stripped line as the
  validator does: a comment is a line whose stripped form starts with \<open>#\<close>; any other line
  is empty, or ends with \<open>/\<close> whenever it starts with \<open>/\<close> and whenever it contains \<open>**\<close>.
\<close>

definition is_comment :: "string \<Rightarrow> bool" where
  "is_comment raw = startswith (strip raw) ''#''"

definition spec_line_ok :: "string \<Rightarrow> bool" where
  "spec_line_ok raw =
     (let line = strip raw
      in line = []
         \<or> ((\<not> startswith line ''/'' \<or> endswith line ''/'')
            \<and> (\<not> contains line ''**'' \<or> endswith line ''/'')))"

definition spec_content_valid :: "string \<Rightarrow> bool" where
  "spec_content_valid text =
     list_all (\<lambda>raw. is_comment raw \<or> spec_line_ok raw) (split_lines text)"

text \<open>The line number a message names; the message about empty content names none.\<close>

fun error_line :: "content_error \<Rightarrow> nat" where
  "error_line EmptyContent = 0"
| "error_line (AbsolutePath i line) = i"
| "error_line (DoubleStar i line) = i"

text \<open>A content that \<open>str.encode()\<close> does not raise on.\<close>

definition encodable :: "code_points \<Rightarrow> bool" where
  "encodable c = (case encode c of Inl e \<Rightarrow> False | Inr bytes \<Rightarrow> True)"

text \<open>
  An operation is trusted when it is a create or a delete, an update whose new content,
  if it gives one, can be encoded, or an import of a record that already carries the
  digest and size of its content.
\<close>

fun op_trusted :: "store_op \<Rightarrow> bool" where
  "op_trusted (Import import_path fs confirm) =
     (case fs import_path of Some (ExportFile d) \<Rightarrow> consistent (template d) | _ \<Rightarrow> True)"
| "op_trusted (Update nm descr cont tgs techs vers now) =
     (case cont of None \<Rightarrow> True | Some c \<Rightarrow> encodable c)"
| "op_trusted _ = True"

section \<open>Concrete inputs\<close>

text \<open>The content \<open>*.log\<close> and its five bytes.\<close>

definition log_rule :: code_points where
  "log_rule = code_points_of ''*.log''"

definition log_rule_bytes :: "8 word list" where
  "log_rule_bytes = [0x2A, 0x2E, 0x6C, 0x6F, 0x67]"

definition sample_template :: Template where
  "sample_template =
     \<lparr>name = ''my-tpl'', description = ''demo'', content = log_rule, author = ''me'',
      version = ''1.0.0'', tags = [''logs''], technologies = [''python''],
      created_at = 10, updated_at = 10, downloads = 0, rating = 0,
      is_official = False, is_custom = True,
      file_size = 5, checksum = sha256_hex log_rule_bytes\<rparr>"

definition sample_store :: store where
  "sample_store =
     \<lparr>templates_db = [''my-tpl'' \<mapsto> sample_template],
      custom_files = [''my-tpl'' \<mapsto> log_rule],
      metadata_file = Index [''my-tpl'' \<mapsto> sample_template]\<rparr>"

text \<open>A record whose size and digest are not those of its content.\<close>

definition tampered_template :: Template where
  "tampered_template =
     sample_template\<lparr>content := code_points_of ''x'', file_size := 0, checksum := []\<rparr>"

definition tampered_file :: files where
  "tampered_file =
     [''t.json'' \<mapsto> ExportFile \<lparr>template = tampered_template, exported_at = 0,
                                  exported_by = ''gign''\<rparr>]"

definition sample_file :: files where
  "sample_file =
     [''s.json'' \<mapsto> ExportFile \<lparr>template = sample_template, exported_at = 0,
                                  exported_by = ''gign''\<rparr>]"

definition fresh_store :: store where
  "fresh_store = init_manager Map.empty NoMetadata"

text \<open>A content of one character, the lone surrogate \<open>U+DC80\<close>.\<close>

definition lone_surrogate :: code_points where
  "lone_surrogate = [0xDC80]"

text \<open>The sample store after an update of its template to that content has raised.\<close>

definition surrogate_store :: store where
  "surrogate_store =
     fst (update_template sample_store ''my-tpl'' None (Some lone_surrogate) None None None 20)"

text \<open>Fifty-one letters.\<close>

definition long_name :: string where
  "long_name = replicate 51 CHR ''a''"

text \<open>
  The scenario of the specification as a directory: a file \<open>.env\<close>, a log file
  \<open>app.log\<close> and an empty directory \<open>build\<close>.
\<close>

definition scenario_project :: project where
  "scenario_project = [File ''.env'' 24, File ''app.log'' 310, Dir ''build'' []]"

text \<open>A directory with a file \<open>passwords.txt\<close> and an empty directory \<open>tmp\<close>.\<close>

definition cache_project :: project where
  "cache_project = [File ''passwords.txt'' 12, Dir ''tmp'' []]"

section \<open>Name validation\<close>

lemma hyphen_not_alnum: "\<not> isalnum_char CHR ''-''"
  by (simp add: isalnum_char_def code_point_def)

lemma underscore_not_alnum: "\<not> isalnum_char CHR ''_''"
  by (simp add: isalnum_char_def code_point_def)

lemma isalnum_stripped:
  "isalnum (remove_char CHR ''_'' (remove_char CHR ''-'' nm))
     \<longleftrightarrow> list_all allowed_name_char nm \<and> list_ex isalnum_char nm"
proof -
  have tail: "list_all isalnum_char (remove_char CHR ''_'' (remove_char CHR ''-'' cs))
                \<longleftrightarrow> list_all allowed_name_char cs" for cs
    by (induction cs) (auto simp: remove_char_def allowed_name_char_def)
  have ex: "remove_char CHR ''_'' (remove_char CHR ''-'' cs) \<noteq> [] \<and> list_all allowed_name_char cs
                \<longleftrightarrow> list_ex isalnum_char cs \<and> list_all allowed_name_char cs" for cs
    by (induction cs)
      (auto simp: remove_char_def allowed_name_char_def hyphen_not_alnum underscore_not_alnum)
  show ?thesis
    using tail [of nm] ex [of nm] unfolding isalnum_def by blast
qed

text \<open>
  Claim C3, as the code has it. \<open>validate_template_name\<close> accepts a name exactly when it has
  at most 50 characters, every character is a letter, a digit, \<open>-\<close> or \<open>_\<close>, and at least one
  character is a letter or a digit. The messages are collected without stopping at the
  first: the one for emptiness when the name is empty, then the one for length when it has
  more than 50 characters, then the one for the alphabet when the name has a character
  outside it or has no letter and no digit at all (so the empty name gets two messages).
\<close>

theorem validate_name_amended:
  "(fst (validate_template_name nm)
      \<longleftrightarrow> length nm \<le> 50 \<and> list_all allowed_name_char nm \<and> list_ex isalnum_char nm)
   \<and> snd (validate_template_name nm) =
       map name_message
         ((if nm = [] then [NameEmpty] else [])
          @ (if length nm > 50 then [NameTooLong] else [])
          @ (if list_all allowed_name_char nm \<and> list_ex isalnum_char nm then []
             else [NameNotAlnum]))"
  by (auto simp: validate_template_name_def name_errors_def isalnum_stripped)

theorem validate_name_amended_witness:
  "fst (validate_template_name ''ab-cd_12'')
   \<and> snd (validate_template_name ''a b'') = [name_message NameNotAlnum]"
  using validate_name_amended [of "''ab-cd_12''"] validate_name_amended [of "''a b''"]
  by (simp add: allowed_name_char_def isalnum_char_def code_point_def)

text \<open>
  The claim as worded fails on the name \<open>-\<close>: it is non-empty, short, and made of allowed
  characters, and the validator rejects it.
\<close>

theorem validate_name_counterexample:
  "\<not> (fst (validate_template_name ''-'') \<longleftrightarrow> spec_name_valid ''-'')"
  by (simp add: validate_template_name_def name_errors_def isalnum_def remove_char_def
      spec_name_valid_def allowed_name_char_def)

section \<open>Content validation\<close>

lemma strip_empty_iff: "strip s = [] \<longleftrightarrow> list_all isspace_char s"
proof -
  have "dropWhile isspace_char (rev (dropWhile isspace_char s)) = []
          \<longleftrightarrow> dropWhile isspace_char s = []"
  proof (cases "dropWhile isspace_char s")
    case Nil
    then show ?thesis by (simp del: dropWhile_eq_Nil_conv)
  next
    case (Cons c cs)
    then have "\<not> isspace_char c"
      by (metis hd_dropWhile list.discI list.sel(1))
    with Cons show ?thesis
      by auto
  qed
  then show ?thesis
    by (simp add: strip_def list_all_iff)
qed

lemma line_errors_empty_iff:
  "line_errors i raw = [] \<longleftrightarrow> is_comment raw \<or> spec_line_ok raw"
  by (auto simp: line_errors_def is_comment_def spec_line_ok_def Let_def startswith_def)

lemma lines_errors_empty_iff:
  "lines_errors i ls = [] \<longleftrightarrow> list_all (\<lambda>raw. is_comment raw \<or> spec_line_ok raw) ls"
  by (induction ls arbitrary: i) (simp_all add: line_errors_empty_iff)

text \<open>
  Claim C2, as the code has it. \<open>validate_template_content\<close> accepts a text exactly when the
  text has a character that is not white space and every line that is not a comment is,
  once stripped, empty or ends with \<open>/\<close> whenever it starts with \<open>/\<close> and whenever it
  contains \<open>**\<close>.
\<close>

theorem validate_content_amended:
  "fst (validate_template_content text)
     \<longleftrightarrow> list_ex (\<lambda>c. \<not> isspace_char c) text \<and> spec_content_valid text"
  by (auto simp: validate_template_content_def content_errors_def strip_empty_iff
      lines_errors_empty_iff spec_content_valid_def list_all_iff list_ex_iff)

theorem validate_content_amended_witness:
  "fst (validate_template_content ''# build\<newline>/dist/\<newline>*.log'')"
  using validate_content_amended [of "''# build\<newline>/dist/\<newline>*.log''"]
  by (simp add: spec_content_valid_def spec_line_ok_def is_comment_def strip_def
      isspace_char_def code_point_def startswith_def endswith_def)

text \<open>
  The claim as worded fails on the empty text: its only line is empty, and the validator
  rejects it for having no content.
\<close>

theorem validate_content_counterexample:
  "\<not> (fst (validate_template_content []) \<longleftrightarrow> spec_content_valid [])"
  by (simp add: validate_template_content_def content_errors_def strip_def
      spec_content_valid_def spec_line_ok_def is_comment_def)

lemma line_errors_line: "e \<in> set (line_errors i raw) \<Longrightarrow> error_line e = i"
  by (auto simp: line_errors_def Let_def split: if_splits)

lemma lines_errors_ge: "e \<in> set (lines_errors i ls) \<Longrightarrow> i \<le> error_line e"
proof (induction ls arbitrary: i)
  case Nil
  then show ?case by simp
next
  case (Cons l ls)
  from Cons.prems consider "e \<in> set (line_errors i l)" | "e \<in> set (lines_errors (Suc i) ls)"
    by auto
  then show ?case
  proof cases
    case 1
    then show ?thesis by (simp add: line_errors_line)
  next
    case 2
    then have "Suc i \<le> error_line e" by (rule Cons.IH)
    then show ?thesis by simp
  qed
qed

lemma lines_errors_sorted: "sorted (map error_line (lines_errors i ls))"
proof (induction ls arbitrary: i)
  case Nil
  show ?case by simp
next
  case (Cons l ls)
  have "sorted (map error_line (line_errors i l))"
    by (simp add: line_errors_def Let_def)
  moreover have "\<forall>x\<in>set (line_errors i l). \<forall>y\<in>set (lines_errors (Suc i) ls).
                   error_line x \<le> error_line y"
    using line_errors_line lines_errors_ge by fastforce
  ultimately show ?case
    using Cons.IH [of "Suc i"] by (simp add: sorted_append)
qed

lemma filter_line_errors:
  "filter (\<lambda>e. error_line e = k) (line_errors i raw) = (if k = i then line_errors i raw else [])"
  by (auto simp: line_errors_def Let_def)

lemma filter_lines_errors:
  "filter (\<lambda>e. error_line e = k) (lines_errors i ls)
     = (if i \<le> k \<and> k < i + length ls then line_errors k (ls ! (k - i)) else [])"
proof (induction ls arbitrary: i)
  case Nil
  show ?case by auto
next
  case (Cons l ls)
  show ?case
  proof (cases "k = i")
    case True
    then show ?thesis
      using Cons.IH [of "Suc i"] by (simp add: filter_line_errors)
  next
    case False
    then show ?thesis
      using Cons.IH [of "Suc i"] by (auto simp: filter_line_errors Suc_diff_le nth_Cons')
  qed
qed

lemma split_lines_not_Nil: "split_lines s \<noteq> []"
  by (induction s) (auto split: list.splits)

lemma split_lines_chars: "l \<in> set (split_lines s) \<Longrightarrow> set l \<subseteq> set s"
proof (induction s arbitrary: l)
  case Nil
  then show ?case by simp
next
  case (Cons c cs)
  obtain h t where ht: "split_lines cs = h # t"
    using split_lines_not_Nil [of cs] by (cases "split_lines cs") auto
  have h: "set h \<subseteq> set cs" and t: "\<And>x. x \<in> set t \<Longrightarrow> set x \<subseteq> set cs"
    using Cons.IH ht by auto
  show ?case
  proof (cases "c = CHR 0x0A")
    case True
    then have "l = [] \<or> l \<in> set (split_lines cs)"
      using Cons.prems by auto
    then show ?thesis
      using Cons.IH by auto
  next
    case False
    then have "l = c # h \<or> l \<in> set t"
      using Cons.prems ht by auto
    then show ?thesis
      using h t by auto
  qed
qed

lemma lines_errors_split:
  "i < length ls \<Longrightarrow>
     lines_errors n ls
       = lines_errors n (take i ls) @ line_errors (n + i) (ls ! i)
           @ lines_errors (Suc (n + i)) (drop (Suc i) ls)"
proof (induction ls arbitrary: n i)
  case Nil
  then show ?case by simp
next
  case (Cons l ls)
  show ?case
  proof (cases i)
    case 0
    then show ?thesis by simp
  next
    case (Suc j)
    then have "j < length ls"
      using Cons.prems by simp
    then show ?thesis
      using Cons.IH [of j "Suc n"] Suc by simp
  qed
qed

lemma startswith_append: "startswith (p @ r) p"
  by (simp add: startswith_def)

lemma line_errors_message:
  assumes "e \<in> set (line_errors k raw)"
  shows "startswith (content_message e) (''Line '' @ str_nat (error_line e) @ '': Invalid pattern '')"
proof -
  from assms consider "e = AbsolutePath k (strip raw)" | "e = DoubleStar k (strip raw)"
    by (auto simp: line_errors_def Let_def split: if_splits)
  then show ?thesis
  proof cases
    case 1
    show ?thesis
      using startswith_append [of "''Line '' @ str_nat k @ '': Invalid pattern ''"]
      by (simp add: 1)
  next
    case 2
    show ?thesis
      using startswith_append [of "''Line '' @ str_nat k @ '': Invalid pattern ''"]
      by (simp add: 2)
  qed
qed

lemma lines_errors_message:
  "e \<in> set (lines_errors n ls) \<Longrightarrow>
     startswith (content_message e) (''Line '' @ str_nat (error_line e) @ '': Invalid pattern '')"
proof (induction ls arbitrary: n)
  case Nil
  then show ?case by simp
next
  case (Cons l ls)
  from Cons.prems consider "e \<in> set (line_errors n l)" | "e \<in> set (lines_errors (Suc n) ls)"
    by auto
  then show ?case
  proof cases
    case 1
    then show ?thesis by (rule line_errors_message)
  next
    case 2
    then show ?thesis by (rule Cons.IH)
  qed
qed

lemma str_nat_2: "str_nat (Suc (Suc 0)) = ''2''"
  by code_simp

text \<open>
  Claim C9, as the code has it. Let line number \<open>i + 1\<close> of a text be, once stripped, not a
  comment, starting with \<open>/\<close>, containing \<open>**\<close> and not ending with \<open>/\<close>. Then the text is
  rejected; the messages are the renderings of \<open>content_errors\<close>; those of that line are
  exactly two, the one of the absolute-path rule and then the one of the double-star rule;
  the returned list holds, one right after the other, the two texts
  \<open>Line i+1: Invalid pattern '...' - absolute paths should end with '/'\<close> and
  \<open>Line i+1: Invalid pattern '...' - '**' should be followed by '/'\<close> with the stripped
  line between the quotes, and the two differ; every message of the list starts with
  \<open>Line\<close> and the number of its line; and over the whole list these numbers never
  decrease.
\<close>

theorem both_rules_reported:
  assumes "i < length (split_lines text)"
    and "line = strip (split_lines text ! i)"
    and "\<not> startswith line ''#''"
    and "startswith line ''/''"
    and "contains line ''**''"
    and "\<not> endswith line ''/''"
  shows "\<not> fst (validate_template_content text)
    \<and> snd (validate_template_content text) = map content_message (content_errors text)
    \<and> filter (\<lambda>e. error_line e = Suc i) (content_errors text)
        = [AbsolutePath (Suc i) line, DoubleStar (Suc i) line]
    \<and> sorted (map error_line (content_errors text))
    \<and> (\<exists>before after.
          snd (validate_template_content text)
            = before
              @ [''Line '' @ str_nat (Suc i) @ '': Invalid pattern '' @ [CHR 0x27] @ line
                   @ [CHR 0x27] @ '' - absolute paths should end with '' @ [CHR 0x27] @ ''/''
                   @ [CHR 0x27],
                 ''Line '' @ str_nat (Suc i) @ '': Invalid pattern '' @ [CHR 0x27] @ line
                   @ [CHR 0x27] @ '' - '' @ [CHR 0x27] @ ''**'' @ [CHR 0x27]
                   @ '' should be followed by '' @ [CHR 0x27] @ ''/'' @ [CHR 0x27]]
              @ after)
    \<and> content_message (AbsolutePath (Suc i) line) \<noteq> content_message (DoubleStar (Suc i) line)
    \<and> (\<forall>e\<in>set (content_errors text).
          startswith (content_message e)
            (''Line '' @ str_nat (error_line e) @ '': Invalid pattern ''))"
proof -
  let ?ls = "split_lines text"
  have ne: "line \<noteq> []"
    using assms(4) by (auto simp: startswith_def)
  have here: "line_errors (Suc i) (?ls ! i)
                = [AbsolutePath (Suc i) line, DoubleStar (Suc i) line]"
    using assms ne by (simp add: line_errors_def Let_def)
  have flt: "filter (\<lambda>e. error_line e = Suc i) (content_errors text)
               = [AbsolutePath (Suc i) line, DoubleStar (Suc i) line]"
    using assms(1) here by (simp add: content_errors_def filter_lines_errors)
  then have nonempty: "content_errors text \<noteq> []"
    by auto
  have srt: "sorted (map error_line (content_errors text))"
    using lines_errors_sorted [of 1 ?ls]
    by (simp add: content_errors_def)
  have msgs: "snd (validate_template_content text) = map content_message (content_errors text)"
    by (simp add: validate_template_content_def)
  have "?ls ! i \<in> set ?ls"
    using assms(1) by simp
  then have "set (?ls ! i) \<subseteq> set text"
    by (rule split_lines_chars)
  moreover have "\<not> list_all isspace_char (?ls ! i)"
    using ne assms(2) strip_empty_iff [of "?ls ! i"] by simp
  ultimately have "\<not> list_all isspace_char text"
    by (auto simp: list_all_iff)
  then have full: "strip text \<noteq> []"
    by (simp add: strip_empty_iff)
  then have split: "content_errors text
      = lines_errors 1 (take i ?ls)
        @ [AbsolutePath (Suc i) line, DoubleStar (Suc i) line]
        @ lines_errors (Suc (Suc i)) (drop (Suc i) ?ls)"
    using lines_errors_split [OF assms(1), of 1] here by (simp add: content_errors_def)
  have "snd (validate_template_content text)
      = map content_message (lines_errors 1 (take i ?ls))
        @ [content_message (AbsolutePath (Suc i) line), content_message (DoubleStar (Suc i) line)]
        @ map content_message (lines_errors (Suc (Suc i)) (drop (Suc i) ?ls))"
    unfolding msgs split by simp
  then have two: "\<exists>before after.
          snd (validate_template_content text)
            = before
              @ [''Line '' @ str_nat (Suc i) @ '': Invalid pattern '' @ [CHR 0x27] @ line
                   @ [CHR 0x27] @ '' - absolute paths should end with '' @ [CHR 0x27] @ ''/''
                   @ [CHR 0x27],
                 ''Line '' @ str_nat (Suc i) @ '': Invalid pattern '' @ [CHR 0x27] @ line
                   @ [CHR 0x27] @ '' - '' @ [CHR 0x27] @ ''**'' @ [CHR 0x27]
                   @ '' should be followed by '' @ [CHR 0x27] @ ''/'' @ [CHR 0x27]]
              @ after"
    unfolding content_message.simps quote_def by blast
  have differ: "content_message (AbsolutePath (Suc i) line)
                  \<noteq> content_message (DoubleStar (Suc i) line)"
    by (simp add: quote_def)
  have named: "\<forall>e\<in>set (content_errors text).
          startswith (content_message e)
            (''Line '' @ str_nat (error_line e) @ '': Invalid pattern '')"
    using full lines_errors_message by (auto simp: content_errors_def)
  have "\<not> fst (validate_template_content text)"
    using nonempty by (simp add: validate_template_content_def)
  with msgs flt srt two differ named show ?thesis
    by blast
qed

theorem both_rules_reported_witness:
  "\<not> fst (validate_template_content ''*.log\<newline> /src/**/tmp'')
   \<and> filter (\<lambda>e. error_line e = 2) (content_errors ''*.log\<newline> /src/**/tmp'')
       = [AbsolutePath 2 ''/src/**/tmp'', DoubleStar 2 ''/src/**/tmp'']
   \<and> snd (validate_template_content ''*.log\<newline> /src/**/tmp'')
       = [''Line 2: Invalid pattern '/src/**/tmp' - absolute paths should end with '/''
            @ [CHR 0x27],
          ''Line 2: Invalid pattern '/src/**/tmp' - '**' should be followed by '/''
            @ [CHR 0x27]]"
proof -
  have "content_errors ''*.log\<newline> /src/**/tmp''
          = [AbsolutePath 2 ''/src/**/tmp'', DoubleStar 2 ''/src/**/tmp'']"
    by (simp add: content_errors_def line_errors_def strip_def isspace_char_def code_point_def
        startswith_def endswith_def numeral_2_eq_2 Let_def)
  then have "map content_message (content_errors ''*.log\<newline> /src/**/tmp'')
          = [''Line 2: Invalid pattern '/src/**/tmp' - absolute paths should end with '/''
               @ [CHR 0x27],
             ''Line 2: Invalid pattern '/src/**/tmp' - '**' should be followed by '/''
               @ [CHR 0x27]]"
    by (simp add: quote_def numeral_2_eq_2 str_nat_2)
  then show ?thesis
    using both_rules_reported [of 1 "''*.log\<newline> /src/**/tmp''" "''/src/**/tmp''"]
    by (simp add: strip_def isspace_char_def code_point_def startswith_def endswith_def
        numeral_2_eq_2)
qed

text \<open>
  The claim as worded fails on the text whose one line is \<open>/a**/\<close> followed by a space:
  the line is no comment, starts with \<open>/\<close>, contains \<open>**\<close> and ends with a space, not with
  \<open>/\<close>, and the validator, which tests the stripped line, accepts the text with no message.
\<close>

theorem both_rules_counterexample:
  "split_lines ''/a**/ '' = [''/a**/ '']
   \<and> \<not> is_comment ''/a**/ ''
   \<and> startswith ''/a**/ '' ''/''
   \<and> contains ''/a**/ '' ''**''
   \<and> \<not> endswith ''/a**/ '' ''/''
   \<and> validate_template_content ''/a**/ '' = (True, [])"
  by (simp add: is_comment_def validate_template_content_def content_errors_def line_errors_def
      strip_def isspace_char_def code_point_def startswith_def endswith_def)

section \<open>Template store\<close>

lemma encode_log_rule: "encode log_rule = Inr log_rule_bytes"
  by (simp add: log_rule_def log_rule_bytes_def code_points_of_def code_point_def
      encode_point_def)

lemma checksum_log_rule: "calculate_checksum log_rule = Inr (sha256_hex log_rule_bytes)"
  by (simp add: calculate_checksum_def encode_log_rule)

lemma encode_lone_surrogate: "encode lone_surrogate = Inl UnicodeEncodeError"
  by (simp add: lone_surrogate_def encode_point_def)

lemma sample_held: "templates_db sample_store ''my-tpl'' = Some sample_template"
  by (simp add: sample_store_def)

lemma fresh_empty: "templates_db fresh_store = Map.empty"
  by (simp add: fresh_store_def init_manager_def)

text \<open>
  Claim C10. Whatever optional fields are given, a call of \<open>update_template\<close> that
  succeeds returns the template now stored under the name, whose \<open>updated_at\<close> is the
  current time; on a name the store holds the call does succeed unless it gives a content
  that cannot be encoded. With no field given the stored template is the old one with
  \<open>updated_at\<close> replaced and no other field touched; the content files stay as they were
  and the index is saved again.
\<close>

theorem update_sets_updated_at:
  assumes "templates_db s nm = Some t"
  shows "(\<forall>t'. snd (update_template s nm descr cont tgs techs vers now) = Inr t'
            \<longrightarrow> updated_at t' = now
              \<and> templates_db (fst (update_template s nm descr cont tgs techs vers now)) nm
                  = Some t')
     \<and> ((case cont of None \<Rightarrow> True | Some c \<Rightarrow> encodable c)
          \<longrightarrow> (\<exists>t'. snd (update_template s nm descr cont tgs techs vers now) = Inr t'))
     \<and> update_template s nm None None None None None now
         = (s\<lparr>templates_db := (templates_db s)(nm \<mapsto> t\<lparr>updated_at := now\<rparr>),
              metadata_file := Index ((templates_db s)(nm \<mapsto> t\<lparr>updated_at := now\<rparr>))\<rparr>,
            Inr (t\<lparr>updated_at := now\<rparr>))"
  using assms
  by (auto simp: update_template_def finish_update_def save_templates_database_def Let_def
      calculate_checksum_def encodable_def split: option.splits sum.splits)

theorem update_sets_updated_at_witness:
  "update_template sample_store ''my-tpl'' None None None None None 99
     = (sample_store
          \<lparr>templates_db :=
             (templates_db sample_store)(''my-tpl'' \<mapsto> sample_template\<lparr>updated_at := 99\<rparr>),
           metadata_file :=
             Index ((templates_db sample_store)
                      (''my-tpl'' \<mapsto> sample_template\<lparr>updated_at := 99\<rparr>))\<rparr>,
        Inr (sample_template\<lparr>updated_at := 99\<rparr>))
   \<and> (\<exists>t'. snd (update_template sample_store ''my-tpl'' None (Some log_rule) None None None 99)
              = Inr t'
          \<and> updated_at t' = 99)"
proof -
  have "case Some log_rule of None \<Rightarrow> True | Some c \<Rightarrow> encodable c"
    by (simp add: encodable_def encode_log_rule)
  then show ?thesis
    using update_sets_updated_at [OF sample_held, of None "Some log_rule" None None None 99]
    by blast
qed

text \<open>
  Claim C7. After \<open>create_template\<close> has succeeded for a name, a second call for that name
  fails with the \<open>already exists\<close> error and returns the store as it was: the one template
  under that name is the one the first call made, with the first call's content. The same
  holds in any later store that still holds a template under that name.
\<close>

theorem create_duplicate_rejected:
  assumes "create_template s0 nm d0 c0 a0 tg0 te0 o0 now0 = (s1, Inr t)"
  shows "create_template s1 nm d c a tg te off now = (s1, Inl DuplicateName)
     \<and> templates_db s1 nm = Some t \<and> name t = nm \<and> content t = c0
     \<and> (\<forall>s. templates_db s nm \<noteq> None
            \<longrightarrow> create_template s nm d c a tg te off now = (s, Inl DuplicateName))"
  using assms
  by (auto simp: create_template_def save_templates_database_def Let_def
      split: if_splits sum.splits)

lemma my_tpl_alnum: "isalnum (remove_char CHR ''_'' (remove_char CHR ''-'' ''my-tpl''))"
  by (simp add: isalnum_def remove_char_def isalnum_char_def code_point_def)

theorem create_duplicate_rejected_witness:
  "create_template
     (fst (create_template fresh_store ''my-tpl'' ''first'' log_rule ''me'' [] [] False 1))
     ''my-tpl'' ''second'' (code_points_of ''*.tmp'') ''you'' [] [] False 2
   = (fst (create_template fresh_store ''my-tpl'' ''first'' log_rule ''me'' [] [] False 1),
      Inl DuplicateName)"
proof -
  have "\<exists>t. create_template fresh_store ''my-tpl'' ''first'' log_rule ''me'' [] [] False 1
          = (fst (create_template fresh_store ''my-tpl'' ''first'' log_rule ''me'' [] [] False 1),
             Inr t)"
    using my_tpl_alnum
    by (simp add: create_template_def fresh_empty encode_log_rule checksum_log_rule Let_def)
  then obtain t where
    h: "create_template fresh_store ''my-tpl'' ''first'' log_rule ''me'' [] [] False 1
          = (fst (create_template fresh_store ''my-tpl'' ''first'' log_rule ''me'' [] [] False 1),
             Inr t)"
    by blast
  show ?thesis
    using create_duplicate_rejected [OF h] by blast
qed

lemma long_name_alnum: "isalnum (remove_char CHR ''_'' (remove_char CHR ''-'' long_name))"
  by (simp add: long_name_def isalnum_def remove_char_def isalnum_char_def code_point_def
      list_all_iff)

text \<open>
  Claim C4, at a name of 51 letters. \<open>validate_template_name\<close> rejects the name, and
  \<open>create_template\<close> on a store without it succeeds and stores a template under it: the
  name check inside \<open>create_template\<close> tests emptiness and the alphabet, not the length.
\<close>

theorem create_accepts_long_name:
  "\<not> fst (validate_template_name long_name)
   \<and> (\<exists>t. snd (create_template fresh_store long_name ''d'' log_rule ''me'' [] [] False 0)
            = Inr t
          \<and> name t = long_name
          \<and> templates_db
              (fst (create_template fresh_store long_name ''d'' log_rule ''me'' [] [] False 0))
              long_name = Some t)"
proof -
  have "long_name \<noteq> []" by (simp add: long_name_def)
  moreover have "length long_name > 50" by (simp add: long_name_def)
  ultimately show ?thesis
    using long_name_alnum
    by (simp add: validate_template_name_def name_errors_def create_template_def
        fresh_empty encode_log_rule checksum_log_rule save_templates_database_def Let_def)
qed

text \<open>
  Claim C8, as the code has it. Let a store hold template \<open>t\<close> under its name, with a
  content that can be encoded. Exporting it to a path succeeds, and importing the file
  written there into a store that holds no template succeeds and leaves under the same
  name a record with the content, checksum and file size of \<open>t\<close>.
\<close>

theorem export_import_roundtrip:
  assumes "templates_db s (name t) = Some t"
    and "templates_db s0 = Map.empty"
    and "encodable (content t)"
  shows "snd (export_template s (name t) path now fs)
     \<and> snd (import_template s0 path (fst (export_template s (name t) path now fs)) confirm)
     \<and> (\<exists>t'. templates_db
               (fst (import_template s0 path (fst (export_template s (name t) path now fs))
                      confirm)) (name t) = Some t'
            \<and> content t' = content t \<and> checksum t' = checksum t
            \<and> file_size t' = file_size t)"
  using assms
  by (auto simp: export_template_def import_template_def get_template_def
      save_templates_database_def Let_def encodable_def split: sum.splits)

theorem export_import_roundtrip_witness:
  "snd (export_template sample_store ''my-tpl'' ''out.json'' 7 Map.empty)
   \<and> snd (import_template fresh_store ''out.json''
            (fst (export_template sample_store ''my-tpl'' ''out.json'' 7 Map.empty)) False)
   \<and> (\<exists>t'. templates_db
             (fst (import_template fresh_store ''out.json''
                     (fst (export_template sample_store ''my-tpl'' ''out.json'' 7 Map.empty))
                     False)) ''my-tpl'' = Some t'
          \<and> content t' = log_rule \<and> checksum t' = sha256_hex log_rule_bytes
          \<and> file_size t' = 5)"
proof -
  have h1: "templates_db sample_store (name sample_template) = Some sample_template"
    by (simp add: sample_store_def sample_template_def)
  have h3: "encodable (content sample_template)"
    by (simp add: sample_template_def encodable_def encode_log_rule)
  have "name sample_template = ''my-tpl''" "content sample_template = log_rule"
    "checksum sample_template = sha256_hex log_rule_bytes" "file_size sample_template = 5"
    by (simp_all add: sample_template_def)
  then show ?thesis
    using export_import_roundtrip [OF h1 fresh_empty h3, of "''out.json''" 7 Map.empty False]
    by simp
qed

text \<open>
  The claim as worded fails on a template whose content is a lone surrogate. The sample
  store comes to hold one when an update to that content raises: the content is assigned
  before it is encoded. Exporting that template succeeds, for the document escapes the
  character, and importing the document into a store that holds nothing fails: the
  content cannot be written to the content file.
\<close>

theorem export_import_counterexample:
  "snd (update_template sample_store ''my-tpl'' None (Some lone_surrogate) None None None 20)
     = Inl UnicodeEncodeError
   \<and> templates_db surrogate_store ''my-tpl''
       = Some (sample_template\<lparr>content := lone_surrogate\<rparr>)
   \<and> snd (export_template surrogate_store ''my-tpl'' ''out.json'' 21 Map.empty)
   \<and> \<not> snd (import_template fresh_store ''out.json''
              (fst (export_template surrogate_store ''my-tpl'' ''out.json'' 21 Map.empty))
              False)
   \<and> templates_db
        (fst (import_template fresh_store ''out.json''
                (fst (export_template surrogate_store ''my-tpl'' ''out.json'' 21 Map.empty))
                False))
       = Map.empty"
  by (simp add: surrogate_store_def update_template_def sample_held export_template_def
      get_template_def import_template_def fresh_empty encode_lone_surrogate
      sample_template_def)

lemma hex32_length: "length (hex32 w) = 8"
  by (simp add: hex32_def)

lemma hexdigest_length: "length (hexdigest st) = 64"
  by (cases st rule: hexdigest.cases) (simp add: hex32_length)

lemma create_consistent:
  "store_consistent s \<Longrightarrow> store_consistent (fst (create_template s nm d c a tg te off now))"
  by (auto simp: store_consistent_def create_template_def save_templates_database_def Let_def
      consistent_def split: sum.splits)

lemma update_consistent:
  "store_consistent s \<Longrightarrow> op_trusted (Update nm d c tg te v now)
     \<Longrightarrow> store_consistent (fst (update_template s nm d c tg te v now))"
  by (auto simp: store_consistent_def update_template_def finish_update_def
      save_templates_database_def Let_def consistent_def calculate_checksum_def encodable_def
      split: option.splits sum.splits)

lemma delete_consistent:
  "store_consistent s \<Longrightarrow> store_consistent (fst (delete_template s nm force confirm))"
  by (auto simp: store_consistent_def delete_template_def save_templates_database_def Let_def
      split: option.splits if_splits)

lemma import_consistent:
  "store_consistent s \<Longrightarrow> op_trusted (Import p fs confirm)
     \<Longrightarrow> store_consistent (fst (import_template s p fs confirm))"
  by (auto simp: store_consistent_def import_template_def save_templates_database_def Let_def
      split: option.splits file_content.splits if_splits sum.splits)

lemma apply_op_consistent:
  "store_consistent s \<Longrightarrow> op_trusted x \<Longrightarrow> store_consistent (apply_op s x)"
  by (cases x) (simp_all add: create_consistent update_consistent delete_consistent
      import_consistent del: op_trusted.simps)

lemma run_ops_consistent:
  "store_consistent s \<Longrightarrow> list_all op_trusted ops \<Longrightarrow> store_consistent (run_ops s ops)"
  unfolding run_ops_def
  by (induction ops arbitrary: s) (simp_all add: apply_op_consistent)

text \<open>
  Claim C1, as the code has it. Start from a store whose templates all carry the digest and
  byte size of their content, and run any sequence of create, update, delete and import
  operations in which every imported record carries the digest and size of its own content
  and every content given to an update can be encoded: every template of the resulting
  store carries the digest and byte size of its content. An import whose content can be
  written stores the record of the file as it is, checksum and size included, and loading
  the index returns every record of it as it is; neither recomputes a digest.
\<close>

theorem store_integrity_amended:
  assumes "store_consistent s"
    and "list_all op_trusted ops"
  shows "store_consistent (run_ops s ops)
     \<and> (encodable (content (template d))
          \<longrightarrow> templates_db (fst (import_template s' p (fs(p \<mapsto> ExportFile d)) True))
                (name (template d)) = Some (template d))
     \<and> load_templates_database (Index data) = data"
  using assms
  by (auto simp: run_ops_consistent import_template_def save_templates_database_def Let_def
      encodable_def split: sum.splits)

lemma sample_consistent: "consistent sample_template"
  by (simp add: consistent_def sample_template_def encode_log_rule checksum_log_rule
      log_rule_bytes_def)

lemma encodable_tmp_rule: "encodable (code_points_of ''*.tmp'')"
  by (simp add: encodable_def code_points_of_def code_point_def encode_point_def)

theorem store_integrity_amended_witness:
  "store_consistent
     (run_ops fresh_store
        [Create ''a1'' ''d'' log_rule ''me'' [] [] False 1,
         Update ''a1'' None (Some (code_points_of ''*.tmp'')) None None None 2,
         Import ''s.json'' sample_file True,
         Delete ''a1'' True False])"
proof -
  have h1: "store_consistent fresh_store"
    by (simp add: store_consistent_def fresh_empty)
  have h2: "list_all op_trusted
        [Create ''a1'' ''d'' log_rule ''me'' [] [] False 1,
         Update ''a1'' None (Some (code_points_of ''*.tmp'')) None None None 2,
         Import ''s.json'' sample_file True,
         Delete ''a1'' True False]"
    by (simp add: sample_file_def sample_consistent encodable_tmp_rule)
  show ?thesis
    using store_integrity_amended [OF h1 h2] by blast
qed

lemma sample_store_consistent: "store_consistent sample_store"
  by (simp add: store_consistent_def sample_store_def sample_consistent)

text \<open>
  The claim as worded fails twice. An import into a fresh store of a file whose record has
  content \<open>x\<close>, size 0 and an empty checksum leaves the store holding that record, whose
  checksum is not the digest of its content and whose size is not its byte length; and
  loading an index that holds the record returns it like any other. An update of the
  sample store, whose one template is consistent, to a content that cannot be encoded
  raises and leaves the template with the new content and the size and checksum of the
  old one.
\<close>

theorem store_integrity_counterexample:
  "\<not> store_consistent (run_ops fresh_store [Import ''t.json'' tampered_file True])
   \<and> templates_db (run_ops fresh_store [Import ''t.json'' tampered_file True]) ''my-tpl''
       = Some tampered_template
   \<and> calculate_checksum (content tampered_template) \<noteq> Inr (checksum tampered_template)
   \<and> encode (content tampered_template) = Inr [0x78]
   \<and> file_size tampered_template = 0
   \<and> load_templates_database (Index [''my-tpl'' \<mapsto> tampered_template]) ''my-tpl''
       = Some tampered_template
   \<and> store_consistent sample_store
   \<and> \<not> store_consistent
         (run_ops sample_store [Update ''my-tpl'' None (Some lone_surrogate) None None None 20])
   \<and> templates_db
        (run_ops sample_store [Update ''my-tpl'' None (Some lone_surrogate) None None None 20])
        ''my-tpl''
       = Some (sample_template\<lparr>content := lone_surrogate\<rparr>)
   \<and> file_size (sample_template\<lparr>content := lone_surrogate\<rparr>) = 5
   \<and> checksum (sample_template\<lparr>content := lone_surrogate\<rparr>) = sha256_hex log_rule_bytes"
proof -
  have enc: "encode (code_points_of ''x'') = Inr [0x78]"
    by (simp add: code_points_of_def code_point_def encode_point_def)
  have "sha256_hex [0x78] \<noteq> []"
    using hexdigest_length [of "sha256 [0x78]"] by (auto simp: sha256_hex_def)
  then have import_facts:
    "templates_db (run_ops fresh_store [Import ''t.json'' tampered_file True]) ''my-tpl''
       = Some tampered_template
     \<and> calculate_checksum (content tampered_template) \<noteq> Inr (checksum tampered_template)
     \<and> encode (content tampered_template) = Inr [0x78]
     \<and> file_size tampered_template = 0
     \<and> load_templates_database (Index [''my-tpl'' \<mapsto> tampered_template]) ''my-tpl''
         = Some tampered_template"
    by (simp add: run_ops_def import_template_def fresh_empty save_templates_database_def
        tampered_template_def tampered_file_def sample_template_def Let_def enc
        calculate_checksum_def)
  then have import_bad:
    "\<not> store_consistent (run_ops fresh_store [Import ''t.json'' tampered_file True])"
    unfolding store_consistent_def consistent_def by (auto split: sum.splits)
  have update_facts:
    "templates_db
        (run_ops sample_store [Update ''my-tpl'' None (Some lone_surrogate) None None None 20])
        ''my-tpl''
       = Some (sample_template\<lparr>content := lone_surrogate\<rparr>)
     \<and> file_size (sample_template\<lparr>content := lone_surrogate\<rparr>) = 5
     \<and> checksum (sample_template\<lparr>content := lone_surrogate\<rparr>) = sha256_hex log_rule_bytes"
    by (simp add: run_ops_def update_template_def sample_held encode_lone_surrogate
        sample_template_def)
  have "\<not> consistent (sample_template\<lparr>content := lone_surrogate\<rparr>)"
    by (simp add: consistent_def encode_lone_surrogate)
  with update_facts have update_bad:
    "\<not> store_consistent
         (run_ops sample_store [Update ''my-tpl'' None (Some lone_surrogate) None None None 20])"
    unfolding store_consistent_def by blast
  from import_facts import_bad update_facts update_bad sample_store_consistent
  show ?thesis by blast
qed

section \<open>Recommendation engine\<close>

lemma sort_reverse_mset: "mset (sort_reverse f xs) = mset xs"
  by (simp add: sort_reverse_def)

lemma sort_reverse_stable:
  "filter (\<lambda>x. f x = k) (sort_reverse f xs) = filter (\<lambda>x. f x = k) xs"
proof -
  have "filter (\<lambda>x. f x = k) (sort_key f (rev xs)) = filter (\<lambda>x. f x = k) (rev xs)"
    by (rule sort_key_stable)
  then show ?thesis
    by (simp add: sort_reverse_def rev_filter [symmetric])
qed

lemma sort_reverse_descending:
  assumes "i < j" and "j < length (sort_reverse f xs)"
  shows "f (sort_reverse f xs ! j) \<le> f (sort_reverse f xs ! i)"
proof -
  let ?ys = "sort_key f (rev xs)"
  have len: "length (sort_reverse f xs) = length ?ys"
    by (simp add: sort_reverse_def)
  have srt: "sorted (map f ?ys)" by simp
  have i': "sort_reverse f xs ! i = ?ys ! (length ?ys - Suc i)"
    using assms len by (simp add: sort_reverse_def rev_nth)
  have j': "sort_reverse f xs ! j = ?ys ! (length ?ys - Suc j)"
    using assms len by (simp add: sort_reverse_def rev_nth)
  have "map f ?ys ! (length ?ys - Suc j) \<le> map f ?ys ! (length ?ys - Suc i)"
    using srt assms len by (intro sorted_nth_mono) auto
  then show ?thesis
    using assms len i' j' by simp
qed

lemma priority_scores:
  "priority_score ''low'' = 1" "priority_score ''medium'' = 2"
  "priority_score ''high'' = 3" "priority_score ''critical'' = 4"
  by (simp_all add: priority_score_def)

text \<open>
  Claim C5. The list \<open>analyze_project_and_recommend\<close> returns has the same items as the
  concatenation of the four analyzers' lists; an item never comes after one with a
  smaller pair (priority score, confidence), pairs being compared first on the score and
  then on the confidence; items with equal pairs keep the order they had in the
  concatenation; the scores of \<open>low\<close>, \<open>medium\<close>, \<open>high\<close>, \<open>critical\<close> are 1, 2, 3, 4; and a
  \<open>critical\<close> item stands before every \<open>medium\<close> one, whatever their confidences.
\<close>

theorem analyze_sorted_stable:
  fixes p techs existing
  defines "recs \<equiv> generate_security_recommendations (analyze_project_structure p)
                   @ generate_performance_recommendations (analyze_project_structure p)
                   @ generate_best_practice_recommendations p techs existing
                   @ generate_technology_recommendations techs existing"
    and "res \<equiv> analyze_project_and_recommend p techs existing"
  shows "mset res = mset recs
     \<and> (\<forall>i j. i < j \<and> j < length res \<longrightarrow> sort_key_of (res ! j) \<le> sort_key_of (res ! i))
     \<and> (\<forall>k. filter (\<lambda>x. sort_key_of x = k) res = filter (\<lambda>x. sort_key_of x = k) recs)
     \<and> (\<forall>x. sort_key_of x = (priority_score (priority x), confidence x))
     \<and> priority_score ''low'' = 1 \<and> priority_score ''medium'' = 2
     \<and> priority_score ''high'' = 3 \<and> priority_score ''critical'' = 4
     \<and> (\<forall>i j. i < length res \<and> j < length res \<and> priority (res ! i) = ''critical''
               \<and> priority (res ! j) = ''medium'' \<longrightarrow> i < j)"
proof -
  have res: "res = sort_reverse sort_key_of recs"
    by (simp add: res_def recs_def analyze_project_and_recommend_def
        collect_recommendations_def Let_def)
  have desc: "sort_key_of (res ! j) \<le> sort_key_of (res ! i)" if "i < j" "j < length res" for i j
    using that unfolding res by (rule sort_reverse_descending)
  have crit: "i < j" if "i < length res" "j < length res" "priority (res ! i) = ''critical''"
      "priority (res ! j) = ''medium''" for i j
  proof (rule ccontr)
    assume "\<not> i < j"
    moreover have "i \<noteq> j" using that by auto
    ultimately have "j < i" by simp
    then have "sort_key_of (res ! i) \<le> sort_key_of (res ! j)"
      using that(1) by (rule desc)
    then show False
      using that by (simp add: sort_key_of_def priority_scores)
  qed
  have "mset res = mset recs"
    by (simp add: res sort_reverse_mset)
  moreover have "\<forall>k. filter (\<lambda>x. sort_key_of x = k) res = filter (\<lambda>x. sort_key_of x = k) recs"
    by (simp add: res sort_reverse_stable)
  moreover have "\<forall>x. sort_key_of x = (priority_score (priority x), confidence x)"
    by (simp add: sort_key_of_def)
  ultimately show ?thesis
    using desc crit by (simp add: priority_scores)
qed

lemma str_nat_1: "str_nat (Suc 0) = ''1''"
  by code_simp

lemma str_nat_9: "str_nat (Suc (Suc (Suc (Suc (Suc (Suc (Suc (Suc (Suc 0))))))))) = ''9''"
  by code_simp

lemma title_python: "title_str ''python'' = ''Python''"
  by code_simp

lemma lower_passwords: "lower ''passwords.txt'' = ''passwords.txt''"
  by (simp add: lower_def lower_char_def code_point_def)

lemma lower_tmp: "lower ''tmp'' = ''tmp''"
  by (simp add: lower_def lower_char_def code_point_def)

lemma cache_project_analysis:
  "analyze_project_structure cache_project
     = \<lparr>file_types = [(''.txt'', 1)], directories = [ [''tmp''] ],
        sensitive_files = [ [''passwords.txt''] ], large_files = [], cache_dirs = [ [''tmp''] ]\<rparr>"
  by (simp add: analyze_project_structure_def cache_project_def Let_def is_sensitive_file_def
      is_cache_directory_def sensitive_patterns_def cache_patterns_def backslash_def
      lower_passwords lower_tmp startswith_def suffix_def rfind_def count_up_def
      lower_def lower_char_def code_point_def)

lemma cache_project_best_practice:
  "generate_best_practice_recommendations cache_project techs existing = []"
  by (simp add: generate_best_practice_recommendations_def cache_project_def endswith_def)

lemma cache_project_result:
  "map priority (analyze_project_and_recommend cache_project [] None) = [''critical'', ''medium'']"
  by (simp add: analyze_project_and_recommend_def collect_recommendations_def Let_def
      cache_project_analysis cache_project_best_practice generate_security_recommendations_def
      generate_performance_recommendations_def generate_technology_recommendations_def
      sort_reverse_def sort_key_of_def priority_score_def startswith_def)

theorem analyze_sorted_stable_witness:
  "priority (analyze_project_and_recommend cache_project [] None ! 0) = ''critical''
   \<and> priority (analyze_project_and_recommend cache_project [] None ! 1) = ''medium''
   \<and> 1 < length (analyze_project_and_recommend cache_project [] None)
   \<and> sort_key_of (analyze_project_and_recommend cache_project [] None ! 1)
       \<le> sort_key_of (analyze_project_and_recommend cache_project [] None ! 0)"
proof -
  have len: "length (analyze_project_and_recommend cache_project [] None) = 2"
    using arg_cong [OF cache_project_result, of length] by simp
  have p0: "priority (analyze_project_and_recommend cache_project [] None ! 0) = ''critical''"
    using arg_cong [OF cache_project_result, of "\<lambda>xs. xs ! 0"] len by simp
  have p1: "priority (analyze_project_and_recommend cache_project [] None ! 1) = ''medium''"
    using arg_cong [OF cache_project_result, of "\<lambda>xs. xs ! 1"] len by simp
  have "(0::nat) < 1 \<and> 1 < length (analyze_project_and_recommend cache_project [] None)"
    using len by simp
  then have "sort_key_of (analyze_project_and_recommend cache_project [] None ! 1)
               \<le> sort_key_of (analyze_project_and_recommend cache_project [] None ! 0)"
    using analyze_sorted_stable [of cache_project "[]" None] by blast
  then show ?thesis
    using len p0 p1 by simp
qed

lemma lower_env: "lower ''.env'' = ''.env''"
  by (simp add: lower_def lower_char_def code_point_def)

lemma env_not_sensitive: "\<not> is_sensitive_file ''.env''"
  by (simp add: is_sensitive_file_def sensitive_patterns_def backslash_def lower_env
      startswith_def)

lemma app_log_not_sensitive: "\<not> is_sensitive_file ''app.log''"
  by (simp add: is_sensitive_file_def sensitive_patterns_def backslash_def lower_def
      lower_char_def code_point_def startswith_def)

lemma build_not_cache: "\<not> is_cache_directory ''build''"
  by (simp add: is_cache_directory_def cache_patterns_def lower_def lower_char_def
      code_point_def startswith_def)

lemma scenario_analysis:
  "analyze_project_structure scenario_project
     = \<lparr>file_types = [([], 1), (''.log'', 1)], directories = [ [''build''] ],
        sensitive_files = [], large_files = [], cache_dirs = []\<rparr>"
  by (simp add: analyze_project_structure_def scenario_project_def Let_def
      env_not_sensitive app_log_not_sensitive build_not_cache suffix_def rfind_def
      count_up_def lower_def lower_char_def code_point_def)

lemma scenario_best_practice:
  "map (\<lambda>r. (priority r, category r, confidence r, title r, rec_description r))
       (generate_best_practice_recommendations scenario_project techs existing)
     = [(''medium'', ''best_practice'', 0.9, ''Log Files'', ''Found 1 log files''),
        (''high'', ''best_practice'', 0.95, ''Build Output Directories'',
           ''Found 1 build output directories'')]"
  by (simp add: generate_best_practice_recommendations_def scenario_project_def endswith_def
      str_nat_1)

lemma scenario_technology:
  "map (\<lambda>r. (priority r, category r, confidence r, title r, rec_description r))
       (generate_technology_recommendations [''python''] None)
     = [(''high'', ''best_practice'', 0.9, ''Python Best Practices'',
           ''Missing 9 recommended patterns for python'')]"
  by (simp add: generate_technology_recommendations_def technology_recommendation_def
      community_patterns_def str_nat_9 title_python)

lemma scenario_collected:
  "map (\<lambda>r. (priority r, category r, confidence r, title r, rec_description r))
       (collect_recommendations scenario_project [''python''] None)
     = [(''medium'', ''best_practice'', 0.9, ''Log Files'', ''Found 1 log files''),
        (''high'', ''best_practice'', 0.95, ''Build Output Directories'',
           ''Found 1 build output directories''),
        (''high'', ''best_practice'', 0.9, ''Python Best Practices'',
           ''Missing 9 recommended patterns for python'')]"
  using scenario_best_practice [of "[''python'']" None] scenario_technology
  by (simp add: collect_recommendations_def Let_def scenario_analysis
      generate_security_recommendations_def generate_performance_recommendations_def
      startswith_def)

text \<open>
  Claim C6, on the scenario as a directory: a file \<open>.env\<close>, one log file, a directory
  \<open>build\<close>, technologies \<open>python\<close>, no existing ignore text. \<open>_is_sensitive_file\<close> does not
  flag \<open>.env\<close>: its patterns are written for a regular-expression search, with a backslash
  before the dot, and are looked for as plain substrings of the name. So the analysis
  finds no sensitive file, and the engine returns three recommendations, none of them
  critical or about security, in this order: high and best practice at 0.95 for the build
  directory; high and best practice at 0.9 reporting all nine python patterns missing;
  medium and best practice at 0.9 for the log file. Had the analysis listed the file, the
  security analyzer would have put the critical recommendation at 0.95 first.
\<close>

theorem scenario_misses_sensitive_file:
  "\<not> is_sensitive_file ''.env''
   \<and> sensitive_files (analyze_project_structure scenario_project) = []
   \<and> map (\<lambda>r. (priority r, category r, confidence r, title r, rec_description r))
       (analyze_project_and_recommend scenario_project [''python''] None)
     = [(''high'', ''best_practice'', 0.95, ''Build Output Directories'',
           ''Found 1 build output directories''),
        (''high'', ''best_practice'', 0.9, ''Python Best Practices'',
           ''Missing 9 recommended patterns for python''),
        (''medium'', ''best_practice'', 0.9, ''Log Files'', ''Found 1 log files'')]
   \<and> length (the (map_of community_patterns ''python'')) = 9
   \<and> map (\<lambda>r. (priority r, category r, confidence r, title r, rec_description r))
       (generate_security_recommendations
          ((analyze_project_structure scenario_project)\<lparr>sensitive_files := [ [''.env''] ]\<rparr>))
     = [(''critical'', ''security'', 0.95, ''Sensitive Files Detected'',
           ''Found 1 potentially sensitive files'')]"
proof -
  obtain r1 r2 r3 where recs: "collect_recommendations scenario_project [''python''] None
      = [r1, r2, r3]"
    and r1: "(priority r1, category r1, confidence r1, title r1, rec_description r1)
      = (''medium'', ''best_practice'', 0.9, ''Log Files'', ''Found 1 log files'')"
    and r2: "(priority r2, category r2, confidence r2, title r2, rec_description r2)
      = (''high'', ''best_practice'', 0.95, ''Build Output Directories'',
           ''Found 1 build output directories'')"
    and r3: "(priority r3, category r3, confidence r3, title r3, rec_description r3)
      = (''high'', ''best_practice'', 0.9, ''Python Best Practices'',
           ''Missing 9 recommended patterns for python'')"
    using scenario_collected by (auto simp: map_eq_Cons_conv)
  have sorted: "analyze_project_and_recommend scenario_project [''python''] None = [r2, r3, r1]"
    using r1 r2 r3
    by (simp add: analyze_project_and_recommend_def recs sort_reverse_def sort_key_of_def
        priority_score_def)
  have security: "map (\<lambda>r. (priority r, category r, confidence r, title r, rec_description r))
       (generate_security_recommendations
          ((analyze_project_structure scenario_project)\<lparr>sensitive_files := [ [''.env''] ]\<rparr>))
     = [(''critical'', ''security'', 0.95, ''Sensitive Files Detected'',
           ''Found 1 potentially sensitive files'')]"
    by (simp add: scenario_analysis generate_security_recommendations_def startswith_def
        str_nat_1)
  have "length (the (map_of community_patterns ''python'')) = 9"
    by (simp add: community_patterns_def)
  then show ?thesis
    using env_not_sensitive scenario_analysis sorted r1 r2 r3 security by simp
qed

end
